theory Spec2Isabelle
  imports Main "HOL-Library.AList"
begin

section \<open>JavaScript values\<close>

text \<open>
  The primitive values the handlers compute with: sheet cells, metadata values, query
  strings and environment variables. A number is kept as its decimal form, the string
  that \<open>String(x)\<close> and \<open>x.toString()\<close> give (\<open>0\<close>, \<open>42\<close>, \<open>-1.5\<close>, \<open>1e+21\<close>,
  \<open>NaN\<close>): the handlers only test a number for truthiness, turn it into a string or pass
  it on. Numbers with the same form are the same number; \<open>+0\<close> and \<open>-0\<close> both have the
  form \<open>0\<close>.
\<close>

datatype prim = JUndefined | JNull | JBool bool | JNum string | JStr string

text \<open>
  Values of request queries and response bodies: a primitive, an array or an object.
  An object is the list of its own properties in the order \<open>JSON.stringify\<close> writes them.
\<close>

datatype json = Prim prim | Arr "json list" | Obj "(string \<times> json) list"

text \<open>
  Truthiness, as \<open>!x\<close>, \<open>x || y\<close> and \<open>if (x)\<close> test it. The falsy numbers are the two
  zeros and \<open>NaN\<close>.
\<close>

fun truthy :: "prim \<Rightarrow> bool" where
  "truthy JUndefined = False"
| "truthy JNull = False"
| "truthy (JBool b) = b"
| "truthy (JNum n) = (n \<noteq> ''0'' \<and> n \<noteq> ''NaN'')"
| "truthy (JStr s) = (s \<noteq> [])"

fun truthy_json :: "json \<Rightarrow> bool" where
  "truthy_json (Prim p) = truthy p"
| "truthy_json (Arr xs) = True"
| "truthy_json (Obj ps) = True"

text \<open>\<open>a || b\<close>\<close>

definition js_or :: "prim \<Rightarrow> prim \<Rightarrow> prim" where
  "js_or a b = (if truthy a then a else b)"

definition json_or :: "json \<Rightarrow> json \<Rightarrow> json" where
  "json_or a b = (if truthy_json a then a else b)"

text \<open>
  \<open>a === b\<close>: primitives are compared by value, and \<open>NaN\<close> is not equal to itself; an
  array or an object is only identical to itself, and the two operands compared in this
  program are never the same reference.
\<close>

fun strict_eq :: "json \<Rightarrow> json \<Rightarrow> bool" where
  "strict_eq (Prim (JNum a)) (Prim (JNum b)) = (a = b \<and> a \<noteq> ''NaN'')"
| "strict_eq (Prim a) (Prim b) = (a = b)"
| "strict_eq _ _ = False"

text \<open>
  Decimal rendering of a natural number: the form of an array length or of an HTTP status
  as a number.
\<close>

fun string_of_nat :: "nat \<Rightarrow> string" where
  "string_of_nat n =
     (if n < 10 then [''0123456789'' ! n]
      else string_of_nat (n div 10) @ [''0123456789'' ! (n mod 10)])"

declare string_of_nat.simps [simp del]

text \<open>
  \<open>String(x)\<close>, which template literals and property keys use. On a value that is neither
  null nor undefined, \<open>x.toString()\<close> gives the same string.
\<close>

fun js_String :: "prim \<Rightarrow> string" where
  "js_String JUndefined = ''undefined''"
| "js_String JNull = ''null''"
| "js_String (JBool b) = (if b then ''true'' else ''false'')"
| "js_String (JNum n) = n"
| "js_String (JStr s) = s"

fun join_with :: "string \<Rightarrow> string list \<Rightarrow> string" where
  "join_with sep [] = []"
| "join_with sep [x] = x"
| "join_with sep (x # y # ys) = x @ sep @ join_with sep (y # ys)"

text \<open>
  \<open>String(x)\<close> on a query value: an array joins its elements with commas (null and
  undefined elements give the empty string), a plain object gives \<open>[object Object]\<close>.
\<close>

fun json_String :: "json \<Rightarrow> string" where
  "json_String (Prim p) = js_String p"
| "json_String (Arr xs) =
     join_with '','' (map (\<lambda>x. if x = Prim JNull \<or> x = Prim JUndefined then [] else json_String x) xs)"
| "json_String (Obj ps) = ''[object Object]''"

text \<open>\<open>row[index]\<close>: reading past the end of an array gives undefined.\<close>

definition js_index :: "prim list \<Rightarrow> nat \<Rightarrow> prim" where
  "js_index row index = (if index < length row then row ! index else JUndefined)"

subsection \<open>Objects used as dictionaries\<close>

text \<open>
  A key is an array index when it is the decimal form, without leading zeros, of a number
  below \<open>2^32 - 1\<close>.
\<close>

definition digits_value :: "string \<Rightarrow> nat" where
  "digits_value s = foldl (\<lambda>n c. 10 * n + (of_char c - 48)) 0 s"

definition array_index :: "string \<Rightarrow> nat option" where
  "array_index key =
     (if key \<noteq> [] \<and> list_all (\<lambda>c. c \<in> set ''0123456789'') key \<and>
         (key = ''0'' \<or> hd key \<noteq> CHR ''0'') \<and> digits_value key < 4294967295
      then Some (digits_value key) else None)"

text \<open>
  The own properties of an object, in the order in which JavaScript enumerates them and
  \<open>JSON.stringify\<close> writes them: first the keys that are array indices, ascending, then
  the other keys in the order of their creation.
\<close>

type_synonym props = "(string \<times> prim) list"

fun insert_index :: "nat \<Rightarrow> string \<Rightarrow> prim \<Rightarrow> props \<Rightarrow> props" where
  "insert_index n key v [] = [(key, v)]"
| "insert_index n key v (p # ps) =
     (case array_index (fst p) of
        Some m \<Rightarrow> if m < n then p # insert_index n key v ps else (key, v) # p # ps
      | None \<Rightarrow> (key, v) # p # ps)"

text \<open>
  Writing an own property: an existing one keeps its place, a new one takes its place in
  the order.
\<close>

definition define_property :: "props \<Rightarrow> string \<Rightarrow> prim \<Rightarrow> props" where
  "define_property ps key v =
     (case map_of ps key of
        Some old \<Rightarrow> AList.update key v ps
      | None \<Rightarrow>
          (case array_index key of
             Some n \<Rightarrow> insert_index n key v ps
           | None \<Rightarrow> ps @ [(key, v)]))"

text \<open>
  An object created by \<open>{}\<close>: its own properties, and whether its prototype has been set
  to null (it starts as \<open>Object.prototype\<close>).
\<close>

record js_object =
  own :: props
  null_prototype :: bool

definition empty_object :: js_object where
  "empty_object = \<lparr>own = [], null_prototype = False\<rparr>"

text \<open>
  \<open>obj[key] = value\<close> for a primitive value. While the prototype is \<open>Object.prototype\<close>
  the key \<open>__proto__\<close> is the accessor inherited from it: assigning null sets the
  prototype to null, assigning any other primitive does nothing, and in both cases no own
  property is created. Once the prototype is null nothing is inherited and \<open>__proto__\<close>
  is a key like any other. Every other key is written as an own property.
\<close>

definition obj_set :: "js_object \<Rightarrow> string \<Rightarrow> prim \<Rightarrow> js_object" where
  "obj_set ob key v =
     (if key = ''__proto__'' \<and> \<not> null_prototype ob then
        (if v = JNull then ob\<lparr>null_prototype := True\<rparr> else ob)
      else ob\<lparr>own := define_property (own ob) key v\<rparr>)"

definition obj_get :: "js_object \<Rightarrow> string \<Rightarrow> prim option" where
  "obj_get ob key = map_of (own ob) key"

definition obj_keys :: "js_object \<Rightarrow> string set" where
  "obj_keys ob = fst ` set (own ob)"

section \<open>Remote calls\<close>

text \<open>
  Every call that leaves the process is recorded, in order, in the trace a function
  returns beside its result. A rejected promise or a thrown \<open>Error\<close> is \<open>Inl\<close> of its
  message.
\<close>

datatype remote_call =
    OAuthGetAccessToken
  | SheetsValuesGet prim json json
  | DriveFilesGet prim string string
  | DriveFilesCopy prim string prim
  | DriveFilesCreate prim prim string
  | DrivePermissionsCreate prim string
  | HttpGet string

type_synonym 'a result = "string + 'a"

record 'b response =
  status :: nat
  body :: 'b

definition str :: "string \<Rightarrow> json" where
  "str s = Prim (JStr s)"

text \<open>What the Drive API returns.\<close>

record permission =
  perm_id :: string
  perm_type :: string
  perm_role :: string

record drive_file =
  df_id :: string
  df_name :: string
  df_webViewLink :: prim
  df_permissions :: "permission list option"

record file_info =
  fi_webViewLink :: prim
  fi_webContentLink :: prim
  fi_permissions :: "permission list option"

text \<open>The file multer puts in \<open>req.file\<close>.\<close>

record upload_file =
  originalname :: string
  mimetype :: string
  buffer :: string

text \<open>
  The environment of a request: the process configuration (\<open>process.env\<close>, a variable that
  is not set is \<open>None\<close>), the clock, and the outcome of each remote call as a function of
  its arguments. \<open>http_fetch\<close> is one unauthenticated request that does not follow
  redirects: the status of the response, or the message of the transport failure.
  \<open>axios_get\<close> is \<open>axios.get(url)\<close> with the default settings: the response data, or
  the message of the failure (transport, or a status outside 2xx).
\<close>

record env =
  WEBHOOK_TOKEN :: "string option"
  N8N_WEBHOOK_URL :: "string option"
  now_toISOString :: string
  oauth_getAccessToken :: "prim result"
  sheets_values_get :: "prim \<Rightarrow> json \<Rightarrow> json \<Rightarrow> (prim list list option) result"
  drive_files_get_name :: "prim \<Rightarrow> string \<Rightarrow> prim result"
  drive_files_copy :: "prim \<Rightarrow> string \<Rightarrow> prim \<Rightarrow> drive_file result"
  drive_files_create :: "prim \<Rightarrow> prim \<Rightarrow> upload_file \<Rightarrow> drive_file result"
  drive_permissions_create :: "prim \<Rightarrow> string \<Rightarrow> permission result"
  drive_files_get_info :: "prim \<Rightarrow> string \<Rightarrow> file_info result"
  http_fetch :: "string \<Rightarrow> nat result"
  axios_get :: "string \<Rightarrow> json result"

definition env_var :: "string option \<Rightarrow> prim" where
  "env_var v = (case v of None \<Rightarrow> JUndefined | Some s \<Rightarrow> JStr s)"

section \<open>The sheet-reading webhook\<close>

record webhook_query =
  q_spreadsheetId :: json
  q_range :: json
  q_webhookToken :: json

text \<open>\<open>readSheet\<close> (googleService): one call of \<open>spreadsheets.values.get\<close>; \<open>values || []\<close>.\<close>

definition readSheet ::
  "env \<Rightarrow> prim \<Rightarrow> json \<Rightarrow> json \<Rightarrow> remote_call list \<times> (prim list list) result" where
  "readSheet env accessToken spreadsheetId rng =
     ([SheetsValuesGet accessToken spreadsheetId rng],
      case sheets_values_get env accessToken spreadsheetId rng of
        Inr values \<Rightarrow> Inr (case values of None \<Rightarrow> [] | Some rows \<Rightarrow> rows)
      | Inl msg \<Rightarrow>
          Inl (''Failed to read Google Sheet (ID: '' @ json_String spreadsheetId @ ''). Reason: '' @ msg))"

text \<open>
  The body of \<open>headers.forEach((header, index) => { obj[header] = row[index] || null })\<close>,
  from position \<open>index\<close> on.
\<close>

fun forEach_header :: "prim list \<Rightarrow> prim list \<Rightarrow> nat \<Rightarrow> js_object \<Rightarrow> js_object" where
  "forEach_header [] row index ob = ob"
| "forEach_header (header # rest) row index ob =
     forEach_header rest row (Suc index)
       (obj_set ob (js_String header) (js_or (js_index row index) JNull))"

definition rowToRecord :: "prim list \<Rightarrow> prim list \<Rightarrow> js_object" where
  "rowToRecord headers row = forEach_header headers row 0 empty_object"

text \<open>What \<open>res.json\<close> writes for a record: its own properties.\<close>

definition record_json :: "js_object \<Rightarrow> json" where
  "record_json ob = Obj (map (\<lambda>(k, v). (k, Prim v)) (own ob))"

definition read_error :: "string \<Rightarrow> json response" where
  "read_error msg =
     \<lparr>status = 500,
      body = Obj [(''error'', str ''Failed to read Google Sheet''), (''message'', str msg)]\<rparr>"

text \<open>
  \<open>getSheetDataWebhook\<close> (webhookController). \<open>sheetData.length < 1\<close> is the empty list;
  otherwise \<open>sheetData[0]\<close> is the head and \<open>sheetData.slice(1)\<close> the tail.
\<close>

definition getSheetDataWebhook ::
  "env \<Rightarrow> webhook_query \<Rightarrow> remote_call list \<times> json response" where
  "getSheetDataWebhook env q =
     (let spreadsheetId = q_spreadsheetId q;
          rng = q_range q;
          webhookToken = q_webhookToken q;
          expectedToken = env_var (WEBHOOK_TOKEN env)
      in
        if \<not> truthy_json webhookToken \<or> \<not> strict_eq webhookToken (Prim expectedToken) then
          ([], \<lparr>status = 401, body = Obj [(''error'', str ''Invalid webhook token'')]\<rparr>)
        else if \<not> truthy_json spreadsheetId then
          ([], \<lparr>status = 400,
                body = Obj [(''error'', str ''Missing required parameter: spreadsheetId'')]\<rparr>)
        else
          (case oauth_getAccessToken env of
             Inl msg \<Rightarrow> ([OAuthGetAccessToken], read_error msg)
           | Inr accessToken \<Rightarrow>
               (case readSheet env accessToken spreadsheetId (json_or rng (str ''Sheet1'')) of
                  (calls, Inl msg) \<Rightarrow> (OAuthGetAccessToken # calls, read_error msg)
                | (calls, Inr sheetData) \<Rightarrow>
                    (OAuthGetAccessToken # calls,
                     case sheetData of
                       [] \<Rightarrow> \<lparr>status = 200, body = Obj [(''data'', Arr [])]\<rparr>
                     | headers # dataRows \<Rightarrow>
                         (let rows = map (rowToRecord headers) dataRows
                          in \<lparr>status = 200,
                              body = Obj [(''sheetId'', spreadsheetId),
                                          (''range'', json_or rng (str ''Sheet1'')),
                                          (''rowCount'', Prim (JNum (string_of_nat (length rows)))),
                                          (''data'', Arr (map record_json rows))]\<rparr>)))))"

text \<open>Reading a property of a response body.\<close>

fun body_get :: "json \<Rightarrow> string \<Rightarrow> json option" where
  "body_get (Obj ps) key = map_of ps key"
| "body_get _ key = None"

section \<open>The Drive operations\<close>

text \<open>
  \<open>copySheet\<close> (googleService). The name lookup has its own \<open>try\<close>: when it fails the
  default name stays. \<open>name: newSheetName || `Copy of ${originalName}`\<close>.
\<close>

definition copySheet ::
  "env \<Rightarrow> prim \<Rightarrow> string \<Rightarrow> prim \<Rightarrow> remote_call list \<times> drive_file result" where
  "copySheet env accessToken sourceSheetId newSheetName =
     (let originalName =
            (case drive_files_get_name env accessToken sourceSheetId of
               Inr name \<Rightarrow> name
             | Inl err \<Rightarrow> JStr ''Spreadsheet'');
          copyName = js_or newSheetName (JStr (''Copy of '' @ js_String originalName))
      in ([DriveFilesGet accessToken sourceSheetId ''name'',
           DriveFilesCopy accessToken sourceSheetId copyName],
          case drive_files_copy env accessToken sourceSheetId copyName of
            Inr data \<Rightarrow> Inr data
          | Inl msg \<Rightarrow>
              Inl (''Failed to copy Google Sheet (ID: '' @ sourceSheetId @ ''). Reason: '' @ msg)))"

definition public_url :: "string \<Rightarrow> string" where
  "public_url fileId = ''https://docs.google.com/spreadsheets/d/'' @ fileId @ ''/edit?usp=sharing''"

text \<open>
  \<open>axios.get(url, {maxRedirects: 0, validateStatus: status => status < 400})\<close>: the
  promise resolves with the response when its status passes \<open>validateStatus\<close> and is
  rejected otherwise.
\<close>

definition axios_get_no_redirect :: "env \<Rightarrow> string \<Rightarrow> nat result" where
  "axios_get_no_redirect env url =
     (case http_fetch env url of
        Inl msg \<Rightarrow> Inl msg
      | Inr st \<Rightarrow>
          if st < 400 then Inr st
          else Inl (''Request failed with status code '' @ string_of_nat st))"

text \<open>\<open>verifyPublicAccess\<close> (googleService): both branches on the status return true.\<close>

definition verifyPublicAccess :: "env \<Rightarrow> string \<Rightarrow> remote_call list \<times> bool result" where
  "verifyPublicAccess env fileId =
     (let publicUrl = public_url fileId
      in ([HttpGet publicUrl],
          case axios_get_no_redirect env publicUrl of
            Inr st \<Rightarrow> (if st = 200 then Inr True else Inr True)
          | Inl msg \<Rightarrow> Inr False))"

record public_permissions =
  permissionId :: string
  permissionType :: string
  permissionRole :: string
  pp_webViewLink :: prim
  pp_webContentLink :: prim
  pp_publicUrl :: string
  pp_permissions :: "permission list option"

definition make_public_error :: "string \<Rightarrow> string \<Rightarrow> string" where
  "make_public_error fileId msg =
     ''Failed to make file public (ID: '' @ fileId @ ''). Reason: '' @ msg"

text \<open>
  \<open>makeFilePublic\<close> (googleService). The first \<open>files.get\<close> is only logged, whatever its
  outcome. Then \<open>permissions.create\<close>, a second \<open>files.get\<close> for the links, and the
  verification, whose result and whose failure are both only logged.
\<close>

definition makeFilePublic ::
  "env \<Rightarrow> prim \<Rightarrow> string \<Rightarrow> remote_call list \<times> public_permissions result" where
  "makeFilePublic env accessToken fileId =
     (let checked = [DriveFilesGet accessToken fileId ''id,name,mimeType,permissions'',
                     DrivePermissionsCreate accessToken fileId]
      in case drive_permissions_create env accessToken fileId of
           Inl msg \<Rightarrow> (checked, Inl (make_public_error fileId msg))
         | Inr perm \<Rightarrow>
             (let read = checked @
                    [DriveFilesGet accessToken fileId
                       ''webViewLink,webContentLink,permissions,sharingUser,shared'']
              in case drive_files_get_info env accessToken fileId of
                   Inl msg \<Rightarrow> (read, Inl (make_public_error fileId msg))
                 | Inr fileInfo \<Rightarrow>
                     (case verifyPublicAccess env fileId of
                        (calls, verified) \<Rightarrow>
                          (read @ calls,
                           Inr \<lparr>permissionId = perm_id perm,
                                permissionType = perm_type perm,
                                permissionRole = perm_role perm,
                                pp_webViewLink = fi_webViewLink fileInfo,
                                pp_webContentLink = js_or (fi_webContentLink fileInfo) JNull,
                                pp_publicUrl = public_url fileId,
                                pp_permissions = fi_permissions fileInfo\<rparr>))))"

text \<open>
  The object \<open>uploadSpreadsheet\<close> returns: \<open>response.data\<close> of \<open>files.create\<close> with the
  properties stage 2 adds. A property that was never assigned is \<open>None\<close>.
\<close>

record file_data =
  fd_id :: string
  fd_name :: string
  fd_webViewLink :: prim
  fd_permissions :: "permission list option"
  fd_publicUrl :: "string option"
  fd_isPublic :: "bool option"
  fd_publicPermissions :: "public_permissions option"
  fd_publicPermissionError :: "string option"

definition created_data :: "drive_file \<Rightarrow> file_data" where
  "created_data f =
     \<lparr>fd_id = df_id f, fd_name = df_name f, fd_webViewLink = df_webViewLink f,
      fd_permissions = df_permissions f, fd_publicUrl = None, fd_isPublic = None,
      fd_publicPermissions = None, fd_publicPermissionError = None\<rparr>"

text \<open>\<open>uploadSpreadsheet\<close> (googleService).\<close>

definition uploadSpreadsheet ::
  "env \<Rightarrow> prim \<Rightarrow> upload_file \<Rightarrow> prim \<Rightarrow> bool \<Rightarrow> remote_call list \<times> file_data result" where
  "uploadSpreadsheet env accessToken file fileName makePublic =
     (let name = js_or fileName (JStr (originalname file));
          created = [DriveFilesCreate accessToken name (mimetype file)]
      in case drive_files_create env accessToken name file of
           Inl msg \<Rightarrow> (created, Inl (''Failed to upload spreadsheet. Reason: '' @ msg))
         | Inr f \<Rightarrow>
             (let data = created_data f
              in if makePublic then
                   (case makeFilePublic env accessToken (fd_id data) of
                      (calls, Inr publicPermissions) \<Rightarrow>
                        (created @ calls,
                         Inr (data\<lparr>fd_webViewLink := pp_webViewLink publicPermissions,
                                   fd_publicUrl := Some (pp_publicUrl publicPermissions),
                                   fd_isPublic := Some True,
                                   fd_publicPermissions := Some publicPermissions\<rparr>))
                    | (calls, Inl permError) \<Rightarrow>
                        (created @ calls,
                         Inr (data\<lparr>fd_isPublic := Some False,
                                   fd_publicPermissionError := Some permError\<rparr>)))
                 else (created, Inr (data\<lparr>fd_isPublic := Some False\<rparr>))))"

section \<open>The notification forwarder\<close>

text \<open>
  \<open>URLSearchParams.prototype.toString\<close>: the application/x-www-form-urlencoded
  serializer over the bytes of the UTF-8 form of each name and value.
\<close>

definition urlencode_byte :: "char \<Rightarrow> string" where
  "urlencode_byte c =
     (if c = CHR '' '' then ''+''
      else if c \<in> set ''*-._0123456789ABCDEFGHIJKLMNOPQRSTUVWXYZabcdefghijklmnopqrstuvwxyz''
      then [c]
      else [CHR ''%'', ''0123456789ABCDEF'' ! (of_char c div 16),
            ''0123456789ABCDEF'' ! (of_char c mod 16)])"

definition urlencode :: "string \<Rightarrow> string" where
  "urlencode s = concat (map urlencode_byte s)"

definition params_toString :: "(string \<times> string) list \<Rightarrow> string" where
  "params_toString params =
     join_with ''&'' (map (\<lambda>(k, v). urlencode k @ ''='' @ urlencode v) params)"

text \<open>
  The loop \<open>for (const [key, value] of Object.entries(metadata))\<close>, over the entries in
  the order \<open>Object.entries\<close> gives them.
\<close>

fun append_metadata :: "(string \<times> string) list \<Rightarrow> (string \<times> prim) list \<Rightarrow> (string \<times> string) list" where
  "append_metadata params [] = params"
| "append_metadata params ((key, v) # entries) =
     append_metadata
       (if v \<noteq> JNull \<and> v \<noteq> JUndefined then params @ [(key, js_String v)] else params)
       entries"

definition n8n_fullUrl :: "env \<Rightarrow> string \<Rightarrow> string \<Rightarrow> (string \<times> prim) list \<Rightarrow> string" where
  "n8n_fullUrl env spreadsheetId n8nWebhookUrl metadata =
     (let params = append_metadata
                     [(''spreadsheetId'', spreadsheetId),
                      (''timestamp'', now_toISOString env),
                      (''source'', ''RetailSyncSaaS'')] metadata
      in n8nWebhookUrl @ (if CHR ''?'' \<in> set n8nWebhookUrl then ''&'' else ''?'')
           @ params_toString params)"

text \<open>\<open>sendToN8n\<close> (googleService).\<close>

definition sendToN8n ::
  "env \<Rightarrow> string \<Rightarrow> string \<Rightarrow> (string \<times> prim) list \<Rightarrow> remote_call list \<times> json result" where
  "sendToN8n env spreadsheetId n8nWebhookUrl metadata =
     (let fullUrl = n8n_fullUrl env spreadsheetId n8nWebhookUrl metadata
      in ([HttpGet fullUrl],
          case axios_get env fullUrl of
            Inr data \<Rightarrow> Inr data
          | Inl msg \<Rightarrow> Inl (''Failed to send data to n8n: '' @ msg)))"

section \<open>The boundary layer\<close>

record user =
  u_email :: prim
  u_displayName :: prim
  u_accessToken :: prim

datatype 'b gate = Next | Respond "'b response"

definition message_body :: "string \<Rightarrow> json" where
  "message_body msg = Obj [(''message'', str msg)]"

text \<open>\<open>ensureAuthenticated\<close> (apiRoutes).\<close>

definition ensureAuthenticated :: "bool \<Rightarrow> user option \<Rightarrow> json gate" where
  "ensureAuthenticated isAuthenticated usr =
     (if isAuthenticated then
        (if (case usr of None \<Rightarrow> False | Some u \<Rightarrow> truthy (u_accessToken u)) then Next
         else Respond \<lparr>status = 401, body = message_body ''Access token missing in session.''\<rparr>)
      else Respond \<lparr>status = 401, body = message_body ''Unauthorized. Please log in.''\<rparr>)"

record n8n_forwarding =
  success :: bool
  webhookUrl :: string
  forward_result :: "json option"
  forward_error :: "string option"

text \<open>The three shapes of body \<open>uploadSpreadsheetController\<close> sends.\<close>

datatype upload_body =
    Message string
  | Message_Error string string
  | Uploaded string file_data n8n_forwarding

record upload_request =
  req_user :: "user option"
  req_file :: "upload_file option"
  req_body_fileName :: prim

definition default_webhook_url :: string where
  "default_webhook_url =
     ''https://shivam02020.app.n8n.cloud/webhook-test/0abe2d8f-0510-49d9-928e-d29d8d49291f''"

definition string_or :: "string option \<Rightarrow> string \<Rightarrow> string" where
  "string_or a b = (case a of None \<Rightarrow> b | Some s \<Rightarrow> if s \<noteq> [] then s else b)"

definition forward_metadata :: "user \<Rightarrow> upload_file \<Rightarrow> file_data \<Rightarrow> string \<Rightarrow> (string \<times> prim) list" where
  "forward_metadata u file d publicUrl =
     [(''fileName'', JStr (fd_name d)),
      (''webViewLink'', fd_webViewLink d),
      (''publicUrl'', JStr publicUrl),
      (''uploadedBy'', js_or (u_email u) (u_displayName u)),
      (''sourceFile'', JStr (originalname file)),
      (''isPublic'', JStr (if fd_isPublic d = Some True then ''true'' else ''false''))]"

text \<open>\<open>uploadSpreadsheetController\<close> (sheetController).\<close>

definition uploadSpreadsheetController ::
  "env \<Rightarrow> upload_request \<Rightarrow> remote_call list \<times> upload_body response" where
  "uploadSpreadsheetController env req =
     (case req_user req of
        None \<Rightarrow>
          ([], \<lparr>status = 401, body = Message ''Authentication required or access token missing.''\<rparr>)
      | Some u \<Rightarrow>
          if \<not> truthy (u_accessToken u) then
            ([], \<lparr>status = 401,
                  body = Message ''Authentication required or access token missing.''\<rparr>)
          else
            (case req_file req of
               None \<Rightarrow>
                 ([], \<lparr>status = 400,
                       body = Message ''No file uploaded. Please upload a spreadsheet file.''\<rparr>)
             | Some file \<Rightarrow>
                 (case uploadSpreadsheet env (u_accessToken u) file (req_body_fileName req) True of
                    (calls, Inl msg) \<Rightarrow>
                      (calls, \<lparr>status = 500,
                               body = Message_Error
                                 ''Failed to upload spreadsheet to Google Drive.'' msg\<rparr>)
                  | (calls, Inr uploadedFileData) \<Rightarrow>
                      (let n8nWebhookUrl = string_or (N8N_WEBHOOK_URL env) default_webhook_url;
                           publicUrl = string_or (fd_publicUrl uploadedFileData)
                                         (public_url (fd_id uploadedFileData))
                       in case sendToN8n env (fd_id uploadedFileData) n8nWebhookUrl
                                 (forward_metadata u file uploadedFileData publicUrl) of
                            (sent, Inr res) \<Rightarrow>
                              (calls @ sent,
                               \<lparr>status = 201,
                                body = Uploaded
                                  ''Spreadsheet uploaded and automatically sent to n8n workflow!''
                                  uploadedFileData
                                  \<lparr>success = True, webhookUrl = n8nWebhookUrl,
                                   forward_result = Some res, forward_error = None\<rparr>\<rparr>)
                          | (sent, Inl webhookError) \<Rightarrow>
                              (calls @ sent,
                               \<lparr>status = 201,
                                body = Uploaded
                                  ''Spreadsheet uploaded successfully, but failed to send to n8n workflow.''
                                  uploadedFileData
                                  \<lparr>success = False, webhookUrl = n8nWebhookUrl,
                                   forward_result = None,
                                   forward_error = Some webhookError\<rparr>\<rparr>)))))"

section \<open>A sample environment\<close>

text \<open>
  A run in which every remote call succeeds, the sheet has a header row and one short data
  row, and the workflow webhook is not configured. The examples below vary it field by
  field.
\<close>

definition sample_file :: drive_file where
  "sample_file =
     \<lparr>df_id = ''f1'', df_name = ''stock.csv'', df_webViewLink = JStr ''https://drive/f1/view'',
      df_permissions = None\<rparr>"

definition sample_env :: env where
  "sample_env =
     \<lparr>WEBHOOK_TOKEN = Some ''secret'',
      N8N_WEBHOOK_URL = None,
      now_toISOString = ''2024-05-01T10:00:00.000Z'',
      oauth_getAccessToken = Inr (JStr ''service-token''),
      sheets_values_get = (\<lambda>tok sid rng. Inr (Some [[JStr ''name'', JStr ''qty''], [JStr ''apple'']])),
      drive_files_get_name = (\<lambda>tok fid. Inr (JStr ''Budget'')),
      drive_files_copy = (\<lambda>tok fid name. Inr (sample_file\<lparr>df_id := ''c1'', df_name := js_String name\<rparr>)),
      drive_files_create = (\<lambda>tok name file. Inr sample_file),
      drive_permissions_create =
        (\<lambda>tok fid. Inr \<lparr>perm_id = ''anyoneWithLink'', perm_type = ''anyone'', perm_role = ''writer''\<rparr>),
      drive_files_get_info =
        (\<lambda>tok fid. Inr \<lparr>fi_webViewLink = JStr ''https://drive/f1/edit'',
                          fi_webContentLink = JUndefined, fi_permissions = None\<rparr>),
      http_fetch = (\<lambda>url. Inr 302),
      axios_get = (\<lambda>url. Inr (Obj [(''message'', str ''Workflow was started'')]))\<rparr>"

definition sample_query :: webhook_query where
  "sample_query =
     \<lparr>q_spreadsheetId = str ''sheet-1'', q_range = Prim JUndefined, q_webhookToken = str ''secret''\<rparr>"

definition sample_user :: user where
  "sample_user = \<lparr>u_email = JStr ''ana@example.com'', u_displayName = JStr ''Ana'', u_accessToken = JStr ''user-token''\<rparr>"

definition sample_upload :: upload_file where
  "sample_upload = \<lparr>originalname = ''stock.csv'', mimetype = ''text/csv'', buffer = ''name,qty''\<rparr>"

definition sample_request :: upload_request where
  "sample_request =
     \<lparr>req_user = Some sample_user, req_file = Some sample_upload, req_body_fileName = JUndefined\<rparr>"

section \<open>Properties of the record conversion\<close>

lemma map_of_insert_index:
  "map_of ps key = None \<Longrightarrow> map_of (insert_index n key v ps) = (map_of ps)(key \<mapsto> v)"
proof (induction ps)
  case Nil
  then show ?case by simp
next
  case (Cons p ps)
  then have "fst p \<noteq> key" "map_of ps key = None"
    by (auto split: if_splits)
  with Cons.IH show ?case
    by (cases p) (auto simp: fun_upd_twist split: option.splits)
qed

lemma map_of_append_new:
  "map_of ps key = None \<Longrightarrow> map_of (ps @ [(key, v)]) = (map_of ps)(key \<mapsto> v)"
proof (rule ext)
  fix x
  assume none: "map_of ps key = None"
  show "map_of (ps @ [(key, v)]) x = ((map_of ps)(key \<mapsto> v)) x"
  proof (cases "x = key")
    case True
    with none show ?thesis by (simp add: map_add_def)
  next
    case False
    then show ?thesis by (simp add: map_add_def split: option.splits)
  qed
qed

lemma map_of_define_property:
  "map_of (define_property ps key v) = (map_of ps)(key \<mapsto> v)"
proof (cases "map_of ps key")
  case None
  show ?thesis
  proof (cases "array_index key")
    case None': None
    with None show ?thesis
      by (simp add: define_property_def map_of_append_new del: map_of_append)
  next
    case (Some n)
    with None show ?thesis
      by (simp add: define_property_def map_of_insert_index)
  qed
next
  case (Some old)
  then show ?thesis
    by (simp add: define_property_def AList.update_conv')
qed

lemma keys_define_property:
  "fst ` set (define_property ps key v) = insert key (fst ` set ps)"
proof -
  have "dom (map_of (define_property ps key v)) = insert key (dom (map_of ps))"
    by (simp add: map_of_define_property)
  then show ?thesis by (simp add: dom_map_of_conv_image_fst)
qed

lemma own_obj_set:
  "map_of (own (obj_set ob k v)) =
     (if k = ''__proto__'' \<and> \<not> null_prototype ob then map_of (own ob) else (map_of (own ob))(k \<mapsto> v))"
  by (simp add: obj_set_def map_of_define_property)

lemma keys_obj_set:
  "k \<noteq> ''__proto__'' \<Longrightarrow> fst ` set (own (obj_set ob k v)) = insert k (fst ` set (own ob))"
  by (simp add: obj_set_def keys_define_property)

lemma cell_or_null:
  "js_or (js_index row i) JNull = (if i < length row \<and> truthy (row ! i) then row ! i else JNull)"
  by (simp add: js_or_def js_index_def)

lemma forEach_header_null_stays:
  "length row \<le> i \<Longrightarrow> map_of (own ob) k = Some JNull \<Longrightarrow>
   map_of (own (forEach_header hs row i ob)) k = Some JNull"
proof (induction hs arbitrary: i ob)
  case Nil
  then show ?case by simp
next
  case (Cons h hs)
  have "map_of (own (obj_set ob (js_String h) (js_or (js_index row i) JNull))) k = Some JNull"
    using Cons.prems by (simp add: own_obj_set cell_or_null)
  with Cons.IH [of "Suc i"] Cons.prems(1) show ?case by simp
qed

lemma forEach_header_other_key:
  "k \<notin> set (map js_String hs) \<Longrightarrow>
   map_of (own (forEach_header hs row i ob)) k = map_of (own ob) k"
  by (induction hs arbitrary: i ob) (auto simp: own_obj_set)

lemma forEach_header_last_write:
  "j < length hs \<Longrightarrow> js_String (hs ! j) \<noteq> ''__proto__'' \<Longrightarrow>
   (\<forall>j'. j < j' \<and> j' < length hs \<longrightarrow> js_String (hs ! j') \<noteq> js_String (hs ! j)) \<Longrightarrow>
   map_of (own (forEach_header hs row i ob)) (js_String (hs ! j)) =
     Some (js_or (js_index row (i + j)) JNull)"
proof (induction hs arbitrary: i ob j)
  case Nil
  then show ?case by simp
next
  case (Cons h hs)
  show ?case
  proof (cases j)
    case 0
    have "js_String h \<notin> set (map js_String hs)"
    proof
      assume "js_String h \<in> set (map js_String hs)"
      then obtain m where "m < length hs" "js_String (hs ! m) = js_String h"
        by (auto simp: in_set_conv_nth)
      with Cons.prems(3) [rule_format, of "Suc m"] 0 show False by simp
    qed
    then show ?thesis using 0 Cons.prems(2)
      by (simp add: forEach_header_other_key own_obj_set)
  next
    case (Suc j0)
    have a: "j0 < length hs" using Cons.prems(1) Suc by simp
    have b: "js_String (hs ! j0) \<noteq> ''__proto__''" using Cons.prems(2) Suc by simp
    have c: "\<forall>j'. j0 < j' \<and> j' < length hs \<longrightarrow> js_String (hs ! j') \<noteq> js_String (hs ! j0)"
    proof (intro allI impI)
      fix j' assume "j0 < j' \<and> j' < length hs"
      with Cons.prems(3) [rule_format, of "Suc j'"] Suc show "js_String (hs ! j') \<noteq> js_String (hs ! j0)"
        by simp
    qed
    show ?thesis using Cons.IH [OF a b c, of "Suc i"] Suc by simp
  qed
qed

lemma forEach_header_entry:
  "map_of (own (forEach_header hs row i ob)) k = Some v \<Longrightarrow>
   map_of (own ob) k = Some v \<or>
   (\<exists>j<length hs. js_String (hs ! j) = k \<and> v = js_or (js_index row (i + j)) JNull)"
proof (induction hs arbitrary: i ob)
  case Nil
  then show ?case by simp
next
  case (Cons h hs)
  from Cons.IH [of "Suc i" "obj_set ob (js_String h) (js_or (js_index row i) JNull)"] Cons.prems
  consider (old) "map_of (own (obj_set ob (js_String h) (js_or (js_index row i) JNull))) k = Some v"
    | (new) j where "j < length hs" "js_String (hs ! j) = k" "v = js_or (js_index row (Suc i + j)) JNull"
    by auto
  then show ?case
  proof cases
    case old
    then have "map_of (own ob) k = Some v \<or> (js_String h = k \<and> v = js_or (js_index row i) JNull)"
      by (auto simp: own_obj_set split: if_splits)
    then show ?thesis by auto
  next
    case new
    then have "Suc j < length (h # hs) \<and> js_String ((h # hs) ! Suc j) = k \<and> v = js_or (js_index row (i + Suc j)) JNull"
      by simp
    then show ?thesis by blast
  qed
qed

lemma forEach_header_keys:
  "''__proto__'' \<notin> set (map js_String hs) \<Longrightarrow>
   fst ` set (own (forEach_header hs row i ob)) = fst ` set (own ob) \<union> set (map js_String hs)"
proof (induction hs arbitrary: i ob)
  case Nil
  then show ?case by simp
next
  case (Cons h hs)
  then have h: "js_String h \<noteq> ''__proto__''" and hs: "''__proto__'' \<notin> set (map js_String hs)"
    by auto
  show ?case
    using Cons.IH [OF hs, of "Suc i" "obj_set ob (js_String h) (js_or (js_index row i) JNull)"]
    by (simp add: keys_obj_set [OF h])
qed

lemma forEach_header_missing_null:
  "j < length hs \<Longrightarrow> length row \<le> i + j \<Longrightarrow> js_String (hs ! j) \<noteq> ''__proto__'' \<Longrightarrow>
   map_of (own (forEach_header hs row i ob)) (js_String (hs ! j)) = Some JNull"
proof (induction hs arbitrary: i ob j)
  case Nil
  then show ?case by simp
next
  case (Cons h hs)
  show ?case
  proof (cases j)
    case 0
    with Cons.prems have "map_of (own (obj_set ob (js_String h) (js_or (js_index row i) JNull))) (js_String h) = Some JNull"
      by (simp add: own_obj_set cell_or_null)
    with forEach_header_null_stays [of row "Suc i" _ "js_String h" hs] Cons.prems(2) 0
    show ?thesis by simp
  next
    case (Suc j0)
    with Cons.prems Cons.IH [of j0 "Suc i"] show ?thesis by simp
  qed
qed

lemma distinct_keys_later:
  assumes "distinct (map f xs)" "i < j" "j < length xs"
  shows "f (xs ! j) \<noteq> f (xs ! i)"
proof -
  have "map f xs ! j \<noteq> map f xs ! i"
    using assms by (simp add: distinct_conv_nth)
  with assms show ?thesis by simp
qed

text \<open>
  When no header is rendered as \<open>__proto__\<close>, the keys of a record are the header keys,
  and a header at or beyond the length of the row maps to null.
\<close>

lemma rowToRecord_keys:
  assumes "''__proto__'' \<notin> set (map js_String headers)"
  shows "obj_keys (rowToRecord headers row) = set (map js_String headers)"
  using assms by (simp add: obj_keys_def rowToRecord_def forEach_header_keys empty_object_def)

lemma rowToRecord_missing_null:
  assumes "''__proto__'' \<notin> set (map js_String headers)" "i < length headers" "length row \<le> i"
  shows "obj_get (rowToRecord headers row) (js_String (headers ! i)) = Some JNull"
proof -
  have "js_String (headers ! i) \<noteq> ''__proto__''"
    using assms(1,2) by (metis length_map nth_map nth_mem)
  with assms(2,3) show ?thesis
    by (simp add: obj_get_def rowToRecord_def forEach_header_missing_null)
qed

text \<open>
  Two runs of the conversion on header rows with unusual keys. A second \<open>__proto__\<close>
  column is written as an own property, since the first has set the prototype to null;
  and keys that are array indices come first in the record, in ascending order.
\<close>

lemma rowToRecord_second_proto_column:
  "rowToRecord [JStr ''name'', JStr ''__proto__'', JStr ''__proto__''] [JStr ''apple''] =
     \<lparr>own = [(''name'', JStr ''apple''), (''__proto__'', JNull)], null_prototype = True\<rparr>"
  by (simp add: rowToRecord_def obj_set_def js_or_def js_index_def empty_object_def
      define_property_def array_index_def)

lemma rowToRecord_index_keys_first:
  "own (rowToRecord [JStr ''b'', JStr ''10'', JNum ''2'', JStr ''01''] [JStr ''x'']) =
     [(''2'', JNull), (''10'', JNull), (''b'', JStr ''x''), (''01'', JNull)]"
  by (simp add: rowToRecord_def obj_set_def js_or_def js_index_def empty_object_def
      define_property_def array_index_def digits_value_def)

section \<open>The webhook endpoint\<close>

lemma strict_eq_env_var: "strict_eq (Prim (env_var t)) (Prim (env_var t))"
  by (cases t) (simp_all add: env_var_def)

text \<open>
  Claim C4. A request to \<open>GET /webhook/sheet\<close> whose \<open>webhookToken\<close> is missing, or is
  not the configured token, is answered with 401 and the body
  \<open>{error: "Invalid webhook token"}\<close>, and no remote call is made: the trace is empty.
  An array or object value of the parameter is never the configured token.
\<close>

theorem webhook_invalid_token_401:
  assumes "q_webhookToken q = Prim JUndefined \<or> q_webhookToken q \<noteq> Prim (env_var (WEBHOOK_TOKEN env))"
  shows "getSheetDataWebhook env q =
           ([], \<lparr>status = 401, body = Obj [(''error'', str ''Invalid webhook token'')]\<rparr>)"
proof (cases "q_webhookToken q")
  case (Prim p)
  with assms have "p = JUndefined \<or> p \<noteq> env_var (WEBHOOK_TOKEN env)" by simp
  then have "\<not> truthy p \<or> \<not> strict_eq (Prim p) (Prim (env_var (WEBHOOK_TOKEN env)))"
    by (cases p; cases "WEBHOOK_TOKEN env") (auto simp: env_var_def)
  with Prim show ?thesis by (simp add: getSheetDataWebhook_def Let_def)
next
  case (Arr xs)
  then show ?thesis by (simp add: getSheetDataWebhook_def Let_def)
next
  case (Obj ps)
  then show ?thesis by (simp add: getSheetDataWebhook_def Let_def)
qed

text \<open>Scenario D: the token \<open>wrong\<close> against the configured token \<open>secret\<close>.\<close>

theorem webhook_invalid_token_401_witness:
  "q_webhookToken (sample_query\<lparr>q_webhookToken := str ''wrong''\<rparr>) \<noteq> Prim (env_var (WEBHOOK_TOKEN sample_env)) \<and>
   getSheetDataWebhook sample_env (sample_query\<lparr>q_webhookToken := str ''wrong''\<rparr>) =
     ([], \<lparr>status = 401, body = Obj [(''error'', str ''Invalid webhook token'')]\<rparr>)"
proof -
  have h: "q_webhookToken (sample_query\<lparr>q_webhookToken := str ''wrong''\<rparr>) \<noteq> Prim (env_var (WEBHOOK_TOKEN sample_env))"
    by (simp add: sample_env_def env_var_def str_def)
  from h webhook_invalid_token_401 [of "sample_query\<lparr>q_webhookToken := str ''wrong''\<rparr>" sample_env]
  show ?thesis by blast
qed

text \<open>
  Claim C3, as stated, fails on a sheet with no rows at all: \<open>values\<close> is undefined,
  \<open>readSheet\<close> returns \<open>[]\<close>, and the guard \<open>sheetData.length < 1\<close> answers
  \<open>{data: []}\<close>, a body without \<open>rowCount\<close>.
\<close>

theorem webhook_empty_sheet_no_rowCount:
  "\<not> (status (snd (getSheetDataWebhook (sample_env\<lparr>sheets_values_get := (\<lambda>tok sid rng. Inr None)\<rparr>) sample_query)) = 200 \<and>
      body_get (body (snd (getSheetDataWebhook (sample_env\<lparr>sheets_values_get := (\<lambda>tok sid rng. Inr None)\<rparr>) sample_query))) ''rowCount'' = Some (Prim (JNum ''0'')) \<and>
      body_get (body (snd (getSheetDataWebhook (sample_env\<lparr>sheets_values_get := (\<lambda>tok sid rng. Inr None)\<rparr>) sample_query))) ''data'' = Some (Arr []))"
  by (simp add: getSheetDataWebhook_def readSheet_def sample_env_def sample_query_def env_var_def
      str_def json_or_def Let_def)

text \<open>
  Claim C3, amended. For a request with the configured token and a spreadsheet id, when
  the token exchange and the read succeed and the sheet has no data row (at most the
  header row), the response has status 200, \<open>data: []\<close> and no \<open>error\<close>. It has
  \<open>rowCount: 0\<close> when the header row is there; when the sheet has no row at all the body
  is \<open>{data: []}\<close> alone, without \<open>rowCount\<close>.
\<close>

theorem webhook_zero_data_rows:
  assumes tok: "truthy_json (q_webhookToken q)" "q_webhookToken q = Prim (env_var (WEBHOOK_TOKEN env))"
      and sid: "truthy_json (q_spreadsheetId q)"
      and acc: "oauth_getAccessToken env = Inr accessToken"
      and rd: "sheets_values_get env accessToken (q_spreadsheetId q) (json_or (q_range q) (str ''Sheet1'')) = Inr values"
      and zero: "length (case values of None \<Rightarrow> [] | Some rows \<Rightarrow> rows) \<le> 1"
  shows "status (snd (getSheetDataWebhook env q)) = 200 \<and>
         body_get (body (snd (getSheetDataWebhook env q))) ''data'' = Some (Arr []) \<and>
         body_get (body (snd (getSheetDataWebhook env q))) ''error'' = None \<and>
         body_get (body (snd (getSheetDataWebhook env q))) ''rowCount'' =
           (if (case values of None \<Rightarrow> [] | Some rows \<Rightarrow> rows) = [] then None else Some (Prim (JNum ''0''))) \<and>
         ((case values of None \<Rightarrow> [] | Some rows \<Rightarrow> rows) = [] \<longrightarrow>
            body (snd (getSheetDataWebhook env q)) = Obj [(''data'', Arr [])])"
proof -
  define sheetData where "sheetData = (case values of None \<Rightarrow> [] | Some rows \<Rightarrow> rows)"
  have rs: "readSheet env accessToken (q_spreadsheetId q) (json_or (q_range q) (str ''Sheet1'')) =
          ([SheetsValuesGet accessToken (q_spreadsheetId q) (json_or (q_range q) (str ''Sheet1''))], Inr sheetData)"
    using rd by (simp add: readSheet_def sheetData_def)
  have shape: "sheetData = [] \<or> (\<exists>headers. sheetData = [headers])"
    using zero unfolding sheetData_def [symmetric] by (cases sheetData) auto
  have run: "snd (getSheetDataWebhook env q) =
      (case sheetData of
         [] \<Rightarrow> \<lparr>status = 200, body = Obj [(''data'', Arr [])]\<rparr>
       | headers # dataRows \<Rightarrow>
           \<lparr>status = 200,
            body = Obj [(''sheetId'', q_spreadsheetId q),
                        (''range'', json_or (q_range q) (str ''Sheet1'')),
                        (''rowCount'', Prim (JNum (string_of_nat (length (map (rowToRecord headers) dataRows))))),
                        (''data'', Arr (map record_json (map (rowToRecord headers) dataRows)))]\<rparr>)"
    using tok sid acc rs
    by (simp add: getSheetDataWebhook_def Let_def strict_eq_env_var split: list.splits)
  from shape show ?thesis
    unfolding sheetData_def [symmetric] run by (auto simp: string_of_nat.simps)
qed

text \<open>A sheet that holds its header row only: status 200 and \<open>rowCount: 0\<close>.\<close>

theorem webhook_zero_data_rows_witness:
  "status (snd (getSheetDataWebhook (sample_env\<lparr>sheets_values_get := (\<lambda>tok sid rng. Inr (Some [[JStr ''name'', JStr ''qty'']]))\<rparr>) sample_query)) = 200 \<and>
   body_get (body (snd (getSheetDataWebhook (sample_env\<lparr>sheets_values_get := (\<lambda>tok sid rng. Inr (Some [[JStr ''name'', JStr ''qty'']]))\<rparr>) sample_query))) ''rowCount'' = Some (Prim (JNum ''0'')) \<and>
   body_get (body (snd (getSheetDataWebhook (sample_env\<lparr>sheets_values_get := (\<lambda>tok sid rng. Inr (Some [[JStr ''name'', JStr ''qty'']]))\<rparr>) sample_query))) ''data'' = Some (Arr [])"
proof -
  let ?env = "sample_env\<lparr>sheets_values_get := (\<lambda>tok sid rng. Inr (Some [[JStr ''name'', JStr ''qty'']]))\<rparr>"
  have 1: "truthy_json (q_webhookToken sample_query)"
    by (simp add: sample_query_def str_def)
  have 2: "q_webhookToken sample_query = Prim (env_var (WEBHOOK_TOKEN ?env))"
    by (simp add: sample_query_def sample_env_def env_var_def str_def)
  have 3: "truthy_json (q_spreadsheetId sample_query)"
    by (simp add: sample_query_def str_def)
  have 4: "oauth_getAccessToken ?env = Inr (JStr ''service-token'')"
    by (simp add: sample_env_def)
  have 5: "sheets_values_get ?env (JStr ''service-token'') (q_spreadsheetId sample_query)
             (json_or (q_range sample_query) (str ''Sheet1'')) = Inr (Some [[JStr ''name'', JStr ''qty'']])"
    by simp
  have 6: "length (case Some [[JStr ''name'', JStr ''qty'']] of None \<Rightarrow> [] | Some rows \<Rightarrow> rows) \<le> 1"
    by simp
  from webhook_zero_data_rows [OF 1 2 3 4 5 6] show ?thesis by simp
qed

text \<open>
  Claim C5 at a sheet whose header row is \<open>name, __proto__\<close> and whose data row is the
  single cell \<open>apple\<close>. The row is shorter than the header row, so the claim asks for a
  record with the keys \<open>name\<close> and \<open>__proto__\<close>, the second mapped to null. The
  assignment \<open>obj['__proto__'] = null\<close> reaches the prototype accessor of the object
  literal, sets the prototype to null and creates no property: the record the endpoint
  sends is \<open>{name: "apple"}\<close>.
\<close>

theorem webhook_proto_header_dropped:
  "own (rowToRecord [JStr ''name'', JStr ''__proto__''] [JStr ''apple'']) = [(''name'', JStr ''apple'')] \<and>
   obj_keys (rowToRecord [JStr ''name'', JStr ''__proto__''] [JStr ''apple''])
     \<noteq> set (map js_String [JStr ''name'', JStr ''__proto__'']) \<and>
   obj_get (rowToRecord [JStr ''name'', JStr ''__proto__''] [JStr ''apple'']) ''__proto__'' \<noteq> Some JNull \<and>
   snd (getSheetDataWebhook
          (sample_env\<lparr>sheets_values_get :=
             (\<lambda>tok sid rng. Inr (Some [[JStr ''name'', JStr ''__proto__''], [JStr ''apple'']]))\<rparr>)
          sample_query) =
     \<lparr>status = 200,
      body = Obj [(''sheetId'', str ''sheet-1''), (''range'', str ''Sheet1''),
                  (''rowCount'', Prim (JNum ''1'')),
                  (''data'', Arr [Obj [(''name'', str ''apple'')]])]\<rparr>"
  by (simp add: rowToRecord_def obj_set_def obj_get_def js_or_def js_index_def obj_keys_def
      empty_object_def define_property_def array_index_def
      getSheetDataWebhook_def readSheet_def sample_env_def sample_query_def env_var_def
      str_def json_or_def record_json_def string_of_nat.simps Let_def)

text \<open>The record of that sheet has the single key \<open>name\<close>.\<close>

theorem webhook_proto_header_dropped_witness:
  "obj_get (rowToRecord [JStr ''name'', JStr ''__proto__''] [JStr ''apple'']) ''__proto__'' = None \<and>
   obj_keys (rowToRecord [JStr ''name'', JStr ''__proto__''] [JStr ''apple'']) = {''name''}"
  using webhook_proto_header_dropped by (simp add: obj_get_def obj_keys_def)

text \<open>
  Claim C10, as stated, fails on a sheet in which two columns have the same header. A
  record is an object keyed by header and holds one value per key, so the later column
  overwrites the earlier one: under the headers \<open>sku, sku\<close> the row \<open>x\<close>, empty string
  gives \<open>{sku: null}\<close>, and the truthy cell \<open>x\<close> is not kept.
\<close>

theorem rowToRecord_duplicate_header_overwrites:
  "own (rowToRecord [JStr ''sku'', JStr ''sku''] [JStr ''x'', JStr []]) = [(''sku'', JNull)] \<and>
   truthy (JStr ''x'') \<and>
   JStr ''x'' \<notin> snd ` set (own (rowToRecord [JStr ''sku'', JStr ''sku''] [JStr ''x'', JStr []]))"
  by (simp add: rowToRecord_def obj_set_def js_or_def js_index_def empty_object_def
      define_property_def array_index_def)

text \<open>
  Claim C10, amended. The value the conversion stores for a column is
  \<open>row[index] || null\<close>: null when the cell is missing and also when it is falsy (the
  empty string, 0, false), the cell itself when it is truthy. Every entry of a record is
  such a value for a column with that key, so no falsy value other than null occurs in a
  record. When several columns have the same header the value of the last one is kept:
  a column whose header is not \<open>__proto__\<close> and is not repeated by a later column has
  exactly that value in the record.
\<close>

theorem rowToRecord_falsy_cells_null:
  "(\<forall>k v. obj_get (rowToRecord headers row) k = Some v \<longrightarrow>
      (\<exists>i<length headers. js_String (headers ! i) = k \<and>
         v = (if i < length row \<and> truthy (row ! i) then row ! i else JNull))) \<and>
   (\<forall>i<length headers.
      js_String (headers ! i) \<noteq> ''__proto__'' \<and>
      (\<forall>j. i < j \<and> j < length headers \<longrightarrow> js_String (headers ! j) \<noteq> js_String (headers ! i)) \<longrightarrow>
      obj_get (rowToRecord headers row) (js_String (headers ! i)) =
        Some (if i < length row \<and> truthy (row ! i) then row ! i else JNull)) \<and>
   \<not> truthy (JStr []) \<and> \<not> truthy (JNum ''0'') \<and> \<not> truthy (JBool False)"
proof (intro conjI allI impI)
  fix k v
  assume "obj_get (rowToRecord headers row) k = Some v"
  then have "map_of (own (forEach_header headers row 0 empty_object)) k = Some v"
    by (simp add: obj_get_def rowToRecord_def)
  from forEach_header_entry [OF this]
  show "\<exists>i<length headers. js_String (headers ! i) = k \<and>
         v = (if i < length row \<and> truthy (row ! i) then row ! i else JNull)"
    by (simp add: cell_or_null empty_object_def)
next
  fix i
  assume i: "i < length headers"
    and "js_String (headers ! i) \<noteq> ''__proto__'' \<and>
      (\<forall>j. i < j \<and> j < length headers \<longrightarrow> js_String (headers ! j) \<noteq> js_String (headers ! i))"
  then have "map_of (own (forEach_header headers row 0 empty_object)) (js_String (headers ! i)) =
      Some (js_or (js_index row (0 + i)) JNull)"
    by (intro forEach_header_last_write) auto
  then show "obj_get (rowToRecord headers row) (js_String (headers ! i)) =
        Some (if i < length row \<and> truthy (row ! i) then row ! i else JNull)"
    by (simp add: obj_get_def rowToRecord_def cell_or_null)
qed simp_all

text \<open>
  A row with an empty string, a zero and a false, under five distinct headers: the three
  falsy cells become null and the truthy cell \<open>x\<close> is kept.
\<close>

theorem rowToRecord_falsy_cells_null_witness:
  "obj_get (rowToRecord [JStr ''a'', JStr ''b'', JStr ''c'', JStr ''d'', JStr ''e'']
                        [JStr [], JNum ''0'', JBool False, JStr ''x'']) ''a'' = Some JNull \<and>
   obj_get (rowToRecord [JStr ''a'', JStr ''b'', JStr ''c'', JStr ''d'', JStr ''e'']
                        [JStr [], JNum ''0'', JBool False, JStr ''x'']) ''b'' = Some JNull \<and>
   obj_get (rowToRecord [JStr ''a'', JStr ''b'', JStr ''c'', JStr ''d'', JStr ''e'']
                        [JStr [], JNum ''0'', JBool False, JStr ''x'']) ''c'' = Some JNull \<and>
   obj_get (rowToRecord [JStr ''a'', JStr ''b'', JStr ''c'', JStr ''d'', JStr ''e'']
                        [JStr [], JNum ''0'', JBool False, JStr ''x'']) ''d'' = Some (JStr ''x'')"
proof -
  let ?hs = "[JStr ''a'', JStr ''b'', JStr ''c'', JStr ''d'', JStr ''e'']"
  let ?row = "[JStr [], JNum ''0'', JBool False, JStr ''x'']"
  have "distinct (map js_String ?hs)" by simp
  then have later: "\<And>i. \<forall>j. i < j \<and> j < length ?hs \<longrightarrow> js_String (?hs ! j) \<noteq> js_String (?hs ! i)"
    using distinct_keys_later [of js_String ?hs] by blast
  note col = rowToRecord_falsy_cells_null [of ?hs ?row, THEN conjunct2, THEN conjunct1, rule_format]
  have "obj_get (rowToRecord ?hs ?row) (js_String (?hs ! 0)) =
          Some (if 0 < length ?row \<and> truthy (?row ! 0) then ?row ! 0 else JNull)"
    by (rule col) (use later [of 0] in simp_all)
  moreover have "obj_get (rowToRecord ?hs ?row) (js_String (?hs ! 1)) =
          Some (if 1 < length ?row \<and> truthy (?row ! 1) then ?row ! 1 else JNull)"
    by (rule col) (use later [of 1] in simp_all)
  moreover have "obj_get (rowToRecord ?hs ?row) (js_String (?hs ! 2)) =
          Some (if 2 < length ?row \<and> truthy (?row ! 2) then ?row ! 2 else JNull)"
    by (rule col) (use later [of 2] in simp_all)
  moreover have "obj_get (rowToRecord ?hs ?row) (js_String (?hs ! 3)) =
          Some (if 3 < length ?row \<and> truthy (?row ! 3) then ?row ! 3 else JNull)"
    by (rule col) (use later [of 3] in simp_all)
  ultimately show ?thesis by simp
qed

section \<open>Copying a file\<close>

text \<open>
  Claim C8, as stated, fails when the name given is the empty string: \<open>newSheetName ||
  ...\<close> takes a falsy name for an absent one, and the copy is requested under
  \<open>Copy of Budget\<close>.
\<close>

theorem copySheet_empty_newName:
  "JStr [] \<noteq> JUndefined \<and>
   fst (copySheet sample_env (JStr ''user-token'') ''src'' (JStr [])) =
     [DriveFilesGet (JStr ''user-token'') ''src'' ''name'',
      DriveFilesCopy (JStr ''user-token'') ''src'' (JStr ''Copy of Budget'')] \<and>
   fst (copySheet sample_env (JStr ''user-token'') ''src'' (JStr [])) \<noteq>
     [DriveFilesGet (JStr ''user-token'') ''src'' ''name'',
      DriveFilesCopy (JStr ''user-token'') ''src'' (JStr [])]"
  by (simp add: copySheet_def sample_env_def js_or_def Let_def)

text \<open>
  Claim C8, amended. \<open>copySheet\<close> first asks for the name of the source file and then
  requests the copy, whatever the outcome of the first call. The name requested is
  \<open>newSheetName\<close> when that is given and truthy (a non-empty string); otherwise it is
  \<open>Copy of\<close> followed by the name fetched, or by the default \<open>Spreadsheet\<close> when the
  fetch failed. The result of the operation is the result of the copy request.
\<close>

theorem copySheet_name:
  "\<exists>name.
     fst (copySheet env accessToken sourceSheetId newSheetName) =
       [DriveFilesGet accessToken sourceSheetId ''name'',
        DriveFilesCopy accessToken sourceSheetId name] \<and>
     (truthy newSheetName \<longrightarrow> name = newSheetName) \<and>
     (\<forall>originalName. \<not> truthy newSheetName \<and>
        drive_files_get_name env accessToken sourceSheetId = Inr originalName \<longrightarrow>
        name = JStr (''Copy of '' @ js_String originalName)) \<and>
     (\<forall>err. \<not> truthy newSheetName \<and>
        drive_files_get_name env accessToken sourceSheetId = Inl err \<longrightarrow>
        name = JStr ''Copy of Spreadsheet'') \<and>
     (\<forall>data. drive_files_copy env accessToken sourceSheetId name = Inr data \<longrightarrow>
        snd (copySheet env accessToken sourceSheetId newSheetName) = Inr data) \<and>
     (\<forall>msg. drive_files_copy env accessToken sourceSheetId name = Inl msg \<longrightarrow>
        snd (copySheet env accessToken sourceSheetId newSheetName) =
          Inl (''Failed to copy Google Sheet (ID: '' @ sourceSheetId @ ''). Reason: '' @ msg))"
  by (cases "drive_files_get_name env accessToken sourceSheetId")
     (simp_all add: copySheet_def js_or_def Let_def)

text \<open>A name that is given, and a run in which the name lookup fails and no name is given.\<close>

theorem copySheet_name_witness:
  "fst (copySheet sample_env (JStr ''user-token'') ''src'' (JStr ''Q3 stock'')) =
     [DriveFilesGet (JStr ''user-token'') ''src'' ''name'',
      DriveFilesCopy (JStr ''user-token'') ''src'' (JStr ''Q3 stock'')] \<and>
   fst (copySheet (sample_env\<lparr>drive_files_get_name := (\<lambda>tok fid. Inl ''File not found'')\<rparr>)
          (JStr ''user-token'') ''src'' JUndefined) =
     [DriveFilesGet (JStr ''user-token'') ''src'' ''name'',
      DriveFilesCopy (JStr ''user-token'') ''src'' (JStr ''Copy of Spreadsheet'')]"
proof -
  let ?env = "sample_env\<lparr>drive_files_get_name := (\<lambda>tok fid. Inl ''File not found'')\<rparr>"
  have given: "truthy (JStr ''Q3 stock'')" by simp
  have absent: "\<not> truthy JUndefined \<and> drive_files_get_name ?env (JStr ''user-token'') ''src'' = Inl ''File not found''"
    by simp
  from copySheet_name [of sample_env "JStr ''user-token''" "''src''" "JStr ''Q3 stock''"] given
  have 1: "fst (copySheet sample_env (JStr ''user-token'') ''src'' (JStr ''Q3 stock'')) =
     [DriveFilesGet (JStr ''user-token'') ''src'' ''name'',
      DriveFilesCopy (JStr ''user-token'') ''src'' (JStr ''Q3 stock'')]"
    by auto
  from copySheet_name [of ?env "JStr ''user-token''" "''src''" JUndefined] absent
  have 2: "fst (copySheet ?env (JStr ''user-token'') ''src'' JUndefined) =
     [DriveFilesGet (JStr ''user-token'') ''src'' ''name'',
      DriveFilesCopy (JStr ''user-token'') ''src'' (JStr ''Copy of Spreadsheet'')]"
    by auto
  from 1 2 show ?thesis by blast
qed

section \<open>Publishing an uploaded file\<close>

lemma verifyPublicAccess_result:
  "snd (verifyPublicAccess env fileId) =
     Inr (case http_fetch env (public_url fileId) of Inl msg \<Rightarrow> False | Inr st \<Rightarrow> st < 400)"
  by (simp add: verifyPublicAccess_def axios_get_no_redirect_def Let_def split: sum.splits)

lemma verifyPublicAccess_calls:
  "fst (verifyPublicAccess env fileId) = [HttpGet (public_url fileId)]"
  by (simp add: verifyPublicAccess_def Let_def)

lemma makeFilePublic_succeeds_iff:
  "(\<exists>p. snd (makeFilePublic env accessToken fileId) = Inr p) \<longleftrightarrow>
   (\<exists>perm. drive_permissions_create env accessToken fileId = Inr perm) \<and>
   (\<exists>fileInfo. drive_files_get_info env accessToken fileId = Inr fileInfo)"
  by (auto simp: makeFilePublic_def Let_def split: sum.splits prod.splits)

lemma makeFilePublic_ignores_verification:
  "makeFilePublic (env\<lparr>http_fetch := fetch\<rparr>) accessToken fileId = makeFilePublic env accessToken fileId"
  by (simp add: makeFilePublic_def verifyPublicAccess_def Let_def split: sum.splits prod.splits)

lemma uploadSpreadsheet_created:
  assumes "drive_files_create env accessToken (js_or fileName (JStr (originalname file))) file = Inr f"
  shows "snd (uploadSpreadsheet env accessToken file fileName True) =
     Inr (case snd (makeFilePublic env accessToken (df_id f)) of
            Inr p \<Rightarrow> (created_data f)\<lparr>fd_webViewLink := pp_webViewLink p,
                                       fd_publicUrl := Some (pp_publicUrl p),
                                       fd_isPublic := Some True,
                                       fd_publicPermissions := Some p\<rparr>
          | Inl msg \<Rightarrow> (created_data f)\<lparr>fd_isPublic := Some False,
                                         fd_publicPermissionError := Some msg\<rparr>)"
  using assms
  by (simp add: uploadSpreadsheet_def Let_def created_data_def split: sum.splits prod.splits)

lemma uploadSpreadsheet_ignores_verification:
  "uploadSpreadsheet (env\<lparr>http_fetch := fetch\<rparr>) accessToken file fileName makePublic =
   uploadSpreadsheet env accessToken file fileName makePublic"
  by (cases "drive_files_create env accessToken (js_or fileName (JStr (originalname file))) file")
     (simp_all add: uploadSpreadsheet_def Let_def makeFilePublic_ignores_verification)

text \<open>
  Claim C1. In a run of \<open>uploadSpreadsheet\<close> that reaches stage 2 (the file was created
  and \<open>makePublic\<close> is set), a descriptor is returned, and its \<open>isPublic\<close> is true
  exactly when the permission-setting call, \<open>makeFilePublic\<close>, succeeded. When that call
  failed, \<open>isPublic\<close> is false and \<open>publicPermissionError\<close> is its message. Replacing
  the outcome of the reachability fetch by any other leaves the descriptor unchanged.
  By \<open>makeFilePublic_succeeds_iff\<close>, the call succeeds when \<open>permissions.create\<close> and
  the \<open>files.get\<close> that follows it both succeed.
\<close>

theorem upload_isPublic_follows_makeFilePublic:
  assumes created: "drive_files_create env accessToken (js_or fileName (JStr (originalname file))) file = Inr f"
  shows "\<exists>d. snd (uploadSpreadsheet env accessToken file fileName True) = Inr d \<and>
     (fd_isPublic d = Some True \<longleftrightarrow> (\<exists>p. snd (makeFilePublic env accessToken (df_id f)) = Inr p)) \<and>
     (\<forall>msg. snd (makeFilePublic env accessToken (df_id f)) = Inl msg \<longrightarrow>
        fd_isPublic d = Some False \<and> fd_publicPermissionError d = Some msg) \<and>
     (\<forall>fetch. snd (uploadSpreadsheet (env\<lparr>http_fetch := fetch\<rparr>) accessToken file fileName True) = Inr d)"
proof -
  show ?thesis
    unfolding uploadSpreadsheet_ignores_verification uploadSpreadsheet_created [OF created]
    by (cases "snd (makeFilePublic env accessToken (df_id f))") simp_all
qed

text \<open>
  The sample run, where the permission is granted, and a run in which
  \<open>permissions.create\<close> is refused.
\<close>

theorem upload_isPublic_follows_makeFilePublic_witness:
  "(\<exists>d. snd (uploadSpreadsheet sample_env (JStr ''user-token'') sample_upload JUndefined True) = Inr d \<and>
        fd_isPublic d = Some True) \<and>
   (\<exists>d. snd (uploadSpreadsheet (sample_env\<lparr>drive_permissions_create := (\<lambda>tok fid. Inl ''insufficient permissions'')\<rparr>)
               (JStr ''user-token'') sample_upload JUndefined True) = Inr d \<and>
        fd_isPublic d = Some False \<and>
        fd_publicPermissionError d =
          Some ''Failed to make file public (ID: f1). Reason: insufficient permissions'')"
proof -
  let ?bad = "sample_env\<lparr>drive_permissions_create := (\<lambda>tok fid. Inl ''insufficient permissions'')\<rparr>"
  have c1: "drive_files_create sample_env (JStr ''user-token'')
              (js_or JUndefined (JStr (originalname sample_upload))) sample_upload = Inr sample_file"
    by (simp add: sample_env_def)
  have m1: "snd (makeFilePublic sample_env (JStr ''user-token'') (df_id sample_file)) =
      Inr \<lparr>permissionId = ''anyoneWithLink'', permissionType = ''anyone'', permissionRole = ''writer'',
           pp_webViewLink = JStr ''https://drive/f1/edit'', pp_webContentLink = JNull,
           pp_publicUrl = public_url ''f1'', pp_permissions = None\<rparr>"
    by (simp add: makeFilePublic_def verifyPublicAccess_def sample_env_def sample_file_def js_or_def Let_def)
  have c2: "drive_files_create ?bad (JStr ''user-token'')
              (js_or JUndefined (JStr (originalname sample_upload))) sample_upload = Inr sample_file"
    by (simp add: sample_env_def)
  have m2: "snd (makeFilePublic ?bad (JStr ''user-token'') (df_id sample_file)) =
      Inl ''Failed to make file public (ID: f1). Reason: insufficient permissions''"
    by (simp add: makeFilePublic_def sample_env_def sample_file_def make_public_error_def Let_def)
  from upload_isPublic_follows_makeFilePublic [OF c1] m1
  have "\<exists>d. snd (uploadSpreadsheet sample_env (JStr ''user-token'') sample_upload JUndefined True) = Inr d \<and>
        fd_isPublic d = Some True"
    by auto
  moreover from upload_isPublic_follows_makeFilePublic [OF c2] m2
  have "\<exists>d. snd (uploadSpreadsheet ?bad (JStr ''user-token'') sample_upload JUndefined True) = Inr d \<and>
        fd_isPublic d = Some False \<and>
        fd_publicPermissionError d =
          Some ''Failed to make file public (ID: f1). Reason: insufficient permissions''"
    by auto
  ultimately show ?thesis by blast
qed

text \<open>
  Claim C7. \<open>verifyPublicAccess\<close> always returns a boolean: true for a response with
  status below 400, redirects included, false for a transport failure. When the
  verification of a created file fails, \<open>uploadSpreadsheet\<close> still returns the
  descriptor, marked public if the permission was granted and the links were read.
\<close>

theorem verifyPublicAccess_never_raises:
  "(\<exists>b. snd (verifyPublicAccess env fileId) = Inr b) \<and>
   (\<forall>st. http_fetch env (public_url fileId) = Inr st \<and> st < 400 \<longrightarrow>
      snd (verifyPublicAccess env fileId) = Inr True) \<and>
   (\<forall>msg. http_fetch env (public_url fileId) = Inl msg \<longrightarrow>
      snd (verifyPublicAccess env fileId) = Inr False) \<and>
   (\<forall>f. drive_files_create env accessToken (js_or fileName (JStr (originalname file))) file = Inr f \<and>
        snd (verifyPublicAccess env (df_id f)) = Inr False \<longrightarrow>
        (\<exists>d. snd (uploadSpreadsheet env accessToken file fileName True) = Inr d \<and>
             ((\<exists>perm. drive_permissions_create env accessToken (df_id f) = Inr perm) \<and>
              (\<exists>fileInfo. drive_files_get_info env accessToken (df_id f) = Inr fileInfo) \<longrightarrow>
              fd_isPublic d = Some True)))"
proof (intro conjI allI impI)
  show "\<exists>b. snd (verifyPublicAccess env fileId) = Inr b"
    by (simp add: verifyPublicAccess_result)
next
  fix st assume "http_fetch env (public_url fileId) = Inr st \<and> st < 400"
  then show "snd (verifyPublicAccess env fileId) = Inr True"
    by (simp add: verifyPublicAccess_result)
next
  fix msg assume "http_fetch env (public_url fileId) = Inl msg"
  then show "snd (verifyPublicAccess env fileId) = Inr False"
    by (simp add: verifyPublicAccess_result)
next
  fix f
  assume a: "drive_files_create env accessToken (js_or fileName (JStr (originalname file))) file = Inr f \<and>
        snd (verifyPublicAccess env (df_id f)) = Inr False"
  then have created: "drive_files_create env accessToken (js_or fileName (JStr (originalname file))) file = Inr f"
    by simp
  show "\<exists>d. snd (uploadSpreadsheet env accessToken file fileName True) = Inr d \<and>
             ((\<exists>perm. drive_permissions_create env accessToken (df_id f) = Inr perm) \<and>
              (\<exists>fileInfo. drive_files_get_info env accessToken (df_id f) = Inr fileInfo) \<longrightarrow>
              fd_isPublic d = Some True)"
    unfolding uploadSpreadsheet_created [OF created]
      makeFilePublic_succeeds_iff [symmetric]
    by (cases "snd (makeFilePublic env accessToken (df_id f))") auto
qed

text \<open>
  A fetch that cannot resolve the host gives false, a redirect gives true, and the upload
  with the failing fetch returns a public descriptor.
\<close>

theorem verifyPublicAccess_never_raises_witness:
  "snd (verifyPublicAccess (sample_env\<lparr>http_fetch := (\<lambda>url. Inl ''getaddrinfo ENOTFOUND'')\<rparr>) ''f1'') = Inr False \<and>
   snd (verifyPublicAccess sample_env ''f1'') = Inr True \<and>
   (\<exists>d. snd (uploadSpreadsheet (sample_env\<lparr>http_fetch := (\<lambda>url. Inl ''getaddrinfo ENOTFOUND'')\<rparr>)
               (JStr ''user-token'') sample_upload JUndefined True) = Inr d \<and>
        fd_isPublic d = Some True)"
proof -
  let ?env = "sample_env\<lparr>http_fetch := (\<lambda>url. Inl ''getaddrinfo ENOTFOUND'')\<rparr>"
  note t = verifyPublicAccess_never_raises [of ?env "''f1''" "JStr ''user-token''" JUndefined sample_upload]
  note s = verifyPublicAccess_never_raises [of sample_env "''f1''" "JStr ''user-token''" JUndefined sample_upload]
  have down: "http_fetch ?env (public_url ''f1'') = Inl ''getaddrinfo ENOTFOUND''"
    by simp
  have redirect: "http_fetch sample_env (public_url ''f1'') = Inr 302 \<and> (302::nat) < 400"
    by (simp add: sample_env_def)
  have created: "drive_files_create ?env (JStr ''user-token'')
              (js_or JUndefined (JStr (originalname sample_upload))) sample_upload = Inr sample_file"
    by (simp add: sample_env_def)
  have id: "df_id sample_file = ''f1''"
    by (simp add: sample_file_def)
  have granted: "(\<exists>perm. drive_permissions_create ?env (JStr ''user-token'') (df_id sample_file) = Inr perm) \<and>
      (\<exists>fileInfo. drive_files_get_info ?env (JStr ''user-token'') (df_id sample_file) = Inr fileInfo)"
    by (simp add: sample_env_def)
  have v1: "snd (verifyPublicAccess ?env ''f1'') = Inr False"
    using t down by blast
  have v2: "snd (verifyPublicAccess sample_env ''f1'') = Inr True"
    using s redirect by blast
  have "\<exists>d. snd (uploadSpreadsheet ?env (JStr ''user-token'') sample_upload JUndefined True) = Inr d \<and>
        fd_isPublic d = Some True"
    using t [THEN conjunct2, THEN conjunct2, THEN conjunct2, rule_format, of sample_file]
      created v1 granted unfolding id by blast
  with v1 v2 show ?thesis by blast
qed

section \<open>Forwarding to the workflow\<close>

lemma append_metadata_filter:
  "append_metadata params metadata =
     params @ map (\<lambda>(k, v). (k, js_String v)) (filter (\<lambda>(k, v). v \<noteq> JNull \<and> v \<noteq> JUndefined) metadata)"
  by (induction params metadata rule: append_metadata.induct) auto

text \<open>
  Claim C6. \<open>sendToN8n\<close> makes exactly one remote call, a GET. Its URL is the callback
  URL, then \<open>&\<close> if the callback URL contains \<open>?\<close> and \<open>?\<close> otherwise, then the
  serialized parameters: \<open>spreadsheetId\<close>, \<open>timestamp\<close>, \<open>source=RetailSyncSaaS\<close>
  and the metadata entries whose value is neither null nor undefined, in order. When the
  GET fails the call fails with its message, and nothing is sent again.
\<close>

theorem sendToN8n_single_get:
  "fst (sendToN8n env spreadsheetId url metadata) = [HttpGet (n8n_fullUrl env spreadsheetId url metadata)] \<and>
   n8n_fullUrl env spreadsheetId url metadata =
     url @ (if CHR ''?'' \<in> set url then ''&'' else ''?'') @
     params_toString
       ([(''spreadsheetId'', spreadsheetId), (''timestamp'', now_toISOString env),
         (''source'', ''RetailSyncSaaS'')] @
        map (\<lambda>(k, v). (k, js_String v))
          (filter (\<lambda>(k, v). v \<noteq> JNull \<and> v \<noteq> JUndefined) metadata)) \<and>
   (\<forall>msg. axios_get env (n8n_fullUrl env spreadsheetId url metadata) = Inl msg \<longrightarrow>
      snd (sendToN8n env spreadsheetId url metadata) = Inl (''Failed to send data to n8n: '' @ msg)) \<and>
   (\<forall>data. axios_get env (n8n_fullUrl env spreadsheetId url metadata) = Inr data \<longrightarrow>
      snd (sendToN8n env spreadsheetId url metadata) = Inr data)"
  by (simp add: sendToN8n_def n8n_fullUrl_def Let_def append_metadata_filter)

text \<open>
  A callback URL that has a query string, metadata with a null and an undefined entry,
  and a GET that fails.
\<close>

theorem sendToN8n_single_get_witness:
  "fst (sendToN8n (sample_env\<lparr>axios_get := (\<lambda>url. Inl ''socket hang up'')\<rparr>) ''abc'' ''http://n8n/hook?x=1''
          [(''a b'', JStr ''c&d''), (''n'', JNull), (''u'', JUndefined), (''k'', JNum ''5'')]) =
     [HttpGet ''http://n8n/hook?x=1&spreadsheetId=abc&timestamp=2024-05-01T10%3A00%3A00.000Z&source=RetailSyncSaaS&a+b=c%26d&k=5''] \<and>
   snd (sendToN8n (sample_env\<lparr>axios_get := (\<lambda>url. Inl ''socket hang up'')\<rparr>) ''abc'' ''http://n8n/hook?x=1''
          [(''a b'', JStr ''c&d''), (''n'', JNull), (''u'', JUndefined), (''k'', JNum ''5'')]) =
     Inl ''Failed to send data to n8n: socket hang up''"
proof -
  let ?env = "sample_env\<lparr>axios_get := (\<lambda>url. Inl ''socket hang up'')\<rparr>"
  let ?md = "[(''a b'', JStr ''c&d''), (''n'', JNull), (''u'', JUndefined), (''k'', JNum ''5'')]"
  note t = sendToN8n_single_get [of ?env "''abc''" "''http://n8n/hook?x=1''" ?md]
  have fail: "axios_get ?env (n8n_fullUrl ?env ''abc'' ''http://n8n/hook?x=1'' ?md) = Inl ''socket hang up''"
    by simp
  have url: "n8n_fullUrl ?env ''abc'' ''http://n8n/hook?x=1'' ?md =
     ''http://n8n/hook?x=1&spreadsheetId=abc&timestamp=2024-05-01T10%3A00%3A00.000Z&source=RetailSyncSaaS&a+b=c%26d&k=5''"
    unfolding t [THEN conjunct2, THEN conjunct1]
    by (simp add: sample_env_def params_toString_def urlencode_def urlencode_byte_def)
  from t fail url show ?thesis by simp
qed

section \<open>The authentication gate and the upload controller\<close>

text \<open>
  Claim C9. \<open>ensureAuthenticated\<close> answers an authenticated session whose user record
  is absent or has no access token with 401 and \<open>Access token missing in session.\<close>, and
  an unauthenticated session with 401 and \<open>Unauthorized. Please log in.\<close>; the two
  bodies differ. The handler behind the gate runs only for an authenticated session with
  a token.
\<close>

theorem ensureAuthenticated_distinct_failures:
  "(usr = None \<or> (\<exists>u. usr = Some u \<and> \<not> truthy (u_accessToken u)) \<longrightarrow>
      ensureAuthenticated True usr =
        Respond \<lparr>status = 401, body = message_body ''Access token missing in session.''\<rparr>) \<and>
   ensureAuthenticated False usr =
     Respond \<lparr>status = 401, body = message_body ''Unauthorized. Please log in.''\<rparr> \<and>
   message_body ''Access token missing in session.'' \<noteq> message_body ''Unauthorized. Please log in.'' \<and>
   (ensureAuthenticated isAuthenticated usr = Next \<longleftrightarrow>
      isAuthenticated \<and> (\<exists>u. usr = Some u \<and> truthy (u_accessToken u)))"
  by (cases usr) (auto simp: ensureAuthenticated_def message_body_def str_def)

text \<open>A session without a token, no session, and a session with a token.\<close>

theorem ensureAuthenticated_distinct_failures_witness:
  "ensureAuthenticated True (Some (sample_user\<lparr>u_accessToken := JUndefined\<rparr>)) =
     Respond \<lparr>status = 401, body = message_body ''Access token missing in session.''\<rparr> \<and>
   ensureAuthenticated False None =
     Respond \<lparr>status = 401, body = message_body ''Unauthorized. Please log in.''\<rparr> \<and>
   ensureAuthenticated True (Some sample_user) = Next"
proof -
  have lacks: "\<exists>u. Some (sample_user\<lparr>u_accessToken := JUndefined\<rparr>) = Some u \<and> \<not> truthy (u_accessToken u)"
    by simp
  have has: "\<exists>u. Some sample_user = Some u \<and> truthy (u_accessToken u)"
    by (simp add: sample_user_def)
  from ensureAuthenticated_distinct_failures [of "Some (sample_user\<lparr>u_accessToken := JUndefined\<rparr>)" True] lacks
  have 1: "ensureAuthenticated True (Some (sample_user\<lparr>u_accessToken := JUndefined\<rparr>)) =
     Respond \<lparr>status = 401, body = message_body ''Access token missing in session.''\<rparr>"
    by blast
  from ensureAuthenticated_distinct_failures [of None False]
  have 2: "ensureAuthenticated False None =
     Respond \<lparr>status = 401, body = message_body ''Unauthorized. Please log in.''\<rparr>"
    by blast
  from ensureAuthenticated_distinct_failures [of "Some sample_user" True] has
  have 3: "ensureAuthenticated True (Some sample_user) = Next"
    by blast
  from 1 2 3 show ?thesis by blast
qed

lemma sendToN8n_result:
  "snd (sendToN8n env spreadsheetId url metadata) =
     (case axios_get env (n8n_fullUrl env spreadsheetId url metadata) of
        Inr data \<Rightarrow> Inr data
      | Inl msg \<Rightarrow> Inl (''Failed to send data to n8n: '' @ msg))"
  by (simp add: sendToN8n_def Let_def)

text \<open>
  Claim C2. For a request with a user, a token and a file, when \<open>files.create\<close>
  succeeds, \<open>uploadSpreadsheet\<close> returns a descriptor of the created file, and if the
  GET of the forwarder then fails, the controller answers 201 with that descriptor and
  \<open>n8nForwarding\<close> holding \<open>success: false\<close> and the message of the forwarding error.
\<close>

theorem upload_forward_failure_still_201:
  assumes usr: "req_user req = Some u" "truthy (u_accessToken u)"
      and fl: "req_file req = Some file"
      and created: "drive_files_create env (u_accessToken u)
                      (js_or (req_body_fileName req) (JStr (originalname file))) file = Inr f"
  shows "\<exists>d. snd (uploadSpreadsheet env (u_accessToken u) file (req_body_fileName req) True) = Inr d \<and>
     fd_id d = df_id f \<and>
     (\<forall>msg. axios_get env
               (n8n_fullUrl env (fd_id d) (string_or (N8N_WEBHOOK_URL env) default_webhook_url)
                  (forward_metadata u file d (string_or (fd_publicUrl d) (public_url (fd_id d))))) = Inl msg \<longrightarrow>
        snd (uploadSpreadsheetController env req) =
          \<lparr>status = 201,
           body = Uploaded ''Spreadsheet uploaded successfully, but failed to send to n8n workflow.'' d
                    \<lparr>success = False,
                     webhookUrl = string_or (N8N_WEBHOOK_URL env) default_webhook_url,
                     forward_result = None,
                     forward_error = Some (''Failed to send data to n8n: '' @ msg)\<rparr>\<rparr>)"
proof -
  from uploadSpreadsheet_created [OF created]
  obtain d where d: "snd (uploadSpreadsheet env (u_accessToken u) file (req_body_fileName req) True) = Inr d"
    by blast
  have id: "fd_id d = df_id f"
    using d unfolding uploadSpreadsheet_created [OF created]
    by (cases "snd (makeFilePublic env (u_accessToken u) (df_id f))") (auto simp: created_data_def)
  obtain calls where up: "uploadSpreadsheet env (u_accessToken u) file (req_body_fileName req) True = (calls, Inr d)"
    using d by (cases "uploadSpreadsheet env (u_accessToken u) file (req_body_fileName req) True") simp
  have "\<forall>msg. axios_get env
               (n8n_fullUrl env (fd_id d) (string_or (N8N_WEBHOOK_URL env) default_webhook_url)
                  (forward_metadata u file d (string_or (fd_publicUrl d) (public_url (fd_id d))))) = Inl msg \<longrightarrow>
        snd (uploadSpreadsheetController env req) =
          \<lparr>status = 201,
           body = Uploaded ''Spreadsheet uploaded successfully, but failed to send to n8n workflow.'' d
                    \<lparr>success = False,
                     webhookUrl = string_or (N8N_WEBHOOK_URL env) default_webhook_url,
                     forward_result = None,
                     forward_error = Some (''Failed to send data to n8n: '' @ msg)\<rparr>\<rparr>"
    using usr fl up
    by (simp add: uploadSpreadsheetController_def Let_def sendToN8n_def)
  with d id show ?thesis by blast
qed

text \<open>The sample upload with a workflow webhook that cannot be reached.\<close>

theorem upload_forward_failure_still_201_witness:
  "\<exists>d. snd (uploadSpreadsheetController (sample_env\<lparr>axios_get := (\<lambda>url. Inl ''socket hang up'')\<rparr>) sample_request) =
     \<lparr>status = 201,
      body = Uploaded ''Spreadsheet uploaded successfully, but failed to send to n8n workflow.'' d
               \<lparr>success = False, webhookUrl = default_webhook_url, forward_result = None,
                forward_error = Some ''Failed to send data to n8n: socket hang up''\<rparr>\<rparr> \<and>
     fd_id d = ''f1''"
proof -
  let ?env = "sample_env\<lparr>axios_get := (\<lambda>url. Inl ''socket hang up'')\<rparr>"
  have 1: "req_user sample_request = Some sample_user"
    by (simp add: sample_request_def)
  have 2: "truthy (u_accessToken sample_user)"
    by (simp add: sample_user_def)
  have 3: "req_file sample_request = Some sample_upload"
    by (simp add: sample_request_def)
  have 4: "drive_files_create ?env (u_accessToken sample_user)
             (js_or (req_body_fileName sample_request) (JStr (originalname sample_upload))) sample_upload =
           Inr sample_file"
    by (simp add: sample_env_def)
  have url: "string_or (N8N_WEBHOOK_URL ?env) default_webhook_url = default_webhook_url"
    by (simp add: sample_env_def string_or_def)
  from upload_forward_failure_still_201 [OF 1 2 3 4]
  show ?thesis unfolding url by (auto simp: sample_file_def)
qed

end
